theory Spec2Isabelle
  imports Main
begin

section \<open>The dotsOCR HTTP gateway (src/api.py)\<close>

text \<open>
  The three request handlers of \<^verbatim>\<open>src/api.py\<close> (\<^verbatim>\<open>parse_image\<close>, \<^verbatim>\<open>parse_pdf\<close>,
  \<^verbatim>\<open>parse_file\<close>) are embedded as functions over an explicit world: the file
  system, the supply of random names and the log of calls made to the external
  engine. A Python exception is a value of type \<open>exn\<close>; a handler returns either the
  exception it raises or the payload it returns, together with the world it leaves.
  The \<^verbatim>\<open>print\<close> statements of the source write to standard output only and are left out.
\<close>

subsection \<open>Values\<close>

text \<open>
  A path is the list of its components below the root, so \<^verbatim>\<open>os.path.join(d, f)\<close> is
  \<open>d @ [f]\<close>; the empty list stands for the empty string.
\<close>

type_synonym path = "string list"

definition path_str :: "path \<Rightarrow> string" where
  "path_str p = concat (map (\<lambda>c. ''/'' @ c) p)"

datatype json =
    JNull
  | JBool bool
  | JNum int
  | JStr string
  | JArr "json list"
  | JObj "(string \<times> json) list"

text \<open>
  Exceptions. \<open>HTTPException\<close> carries \<^verbatim>\<open>status_code\<close> and \<^verbatim>\<open>detail\<close>; the other three
  are the exceptions the handlers can meet: an \<^verbatim>\<open>OSError\<close> of a file operation, the
  \<^verbatim>\<open>IndexError\<close> of \<^verbatim>\<open>results[0]\<close>, and whatever the engine raises, each with its message.
  All four are subclasses of \<^verbatim>\<open>Exception\<close>, so every \<^verbatim>\<open>except Exception\<close> catches them.
\<close>

datatype exn =
    HTTPException nat string
  | OSError string
  | IndexError
  | EngineError string

text \<open>The upload: \<^verbatim>\<open>file.filename\<close>, the bytes of the body, and the read cursor.\<close>

record upload =
  filename :: "string option"
  content :: string
  pos :: nat

definition read_upload :: "upload \<Rightarrow> string \<times> upload" where
  \<comment> \<open>\<^verbatim>\<open>await file.read()\<close>: the bytes from the cursor on; the cursor moves to the end.\<close>
  "read_upload f = (drop (pos f) (content f), f\<lparr>pos := max (pos f) (length (content f))\<rparr>)"

definition seek0 :: "upload \<Rightarrow> upload" where
  \<comment> \<open>\<^verbatim>\<open>await file.seek(0)\<close>\<close>
  "seek0 f = f\<lparr>pos := 0\<rparr>"

text \<open>A per-page descriptor of the engine: the two keys the handlers read with \<^verbatim>\<open>.get\<close>.\<close>

record descriptor =
  layout_info_path :: "path option"
  page_no :: "int option"

record page_entry =
  entry_page_no :: "int option"
  full_layout_info :: json

record payload =
  success :: bool
  total_pages :: nat
  results :: "page_entry list"

subsection \<open>The file system\<close>

text \<open>
  The files with their bytes, the directories, and the number of bytes the disk holds.
\<close>

record fs =
  files :: "(path \<times> string) list"
  dirs :: "path list"
  capacity :: nat

definition used :: "fs \<Rightarrow> nat" where
  "used d = sum_list (map (\<lambda>e. length (snd e)) (files d))"

definition is_file :: "fs \<Rightarrow> path \<Rightarrow> bool" where
  "is_file d p = (p \<in> set (map fst (files d)))"

definition is_dir :: "fs \<Rightarrow> path \<Rightarrow> bool" where
  "is_dir d p = (p \<in> set (dirs d))"

definition path_exists :: "fs \<Rightarrow> path \<Rightarrow> bool" where
  \<comment> \<open>\<^verbatim>\<open>os.path.exists\<close>\<close>
  "path_exists d p = (is_file d p \<or> is_dir d p)"

definition child_of :: "path \<Rightarrow> path \<Rightarrow> bool" where
  "child_of d p = (p \<noteq> [] \<and> butlast p = d)"

definition listdir :: "fs \<Rightarrow> path \<Rightarrow> string list" where
  \<comment> \<open>the names directly under \<open>d\<close>, files first\<close>
  "listdir d p =
     map last (filter (child_of p) (remdups (map fst (files d))))
     @ map last (filter (child_of p) (remdups (dirs d)))"

definition read_file :: "fs \<Rightarrow> path \<Rightarrow> string option" where
  "read_file d p = map_of (files d) p"

subsection \<open>The world and its operations\<close>

datatype engine_call =
    ImageCall path string string path bool
  | PdfCall path string string path

record world =
  disk :: fs
  rand :: "string list"
  calls :: "engine_call list"

type_synonym 'a io = "world \<Rightarrow> (exn + 'a) \<times> world"

definition ret :: "'a \<Rightarrow> 'a io" where
  "ret x = (\<lambda>w. (Inr x, w))"

definition raise :: "exn \<Rightarrow> 'a io" where
  "raise e = (\<lambda>w. (Inl e, w))"

definition bnd :: "'a io \<Rightarrow> ('a \<Rightarrow> 'b io) \<Rightarrow> 'b io" where
  \<comment> \<open>sequencing: an exception of the first statement skips the rest\<close>
  "bnd m f = (\<lambda>w. case m w of (Inl e, w') \<Rightarrow> (Inl e, w') | (Inr x, w') \<Rightarrow> f x w')"

definition try_except :: "'a io \<Rightarrow> (exn \<Rightarrow> 'a io) \<Rightarrow> 'a io" where
  \<comment> \<open>\<^verbatim>\<open>try: m  except Exception as e: h e\<close>\<close>
  "try_except m h = (\<lambda>w. case m w of (Inl e, w') \<Rightarrow> h e w' | (Inr x, w') \<Rightarrow> (Inr x, w'))"

definition try_finally :: "'a io \<Rightarrow> unit io \<Rightarrow> 'a io" where
  \<comment> \<open>\<^verbatim>\<open>try: m  finally: c\<close>: \<open>c\<close> runs on every outcome of \<open>m\<close>; an exception of \<open>c\<close>
      replaces that outcome, a value or an exception alike\<close>
  "try_finally m c =
     (\<lambda>w. case m w of (r, w') \<Rightarrow>
        (case c w' of (Inl e, w'') \<Rightarrow> (Inl e, w'') | (Inr u, w'') \<Rightarrow> (r, w'')))"

definition os_path_exists :: "path \<Rightarrow> bool io" where
  "os_path_exists p = (\<lambda>w. (Inr (path_exists (disk w) p), w))"

definition quoted :: "string \<Rightarrow> string" where
  \<comment> \<open>\<^verbatim>\<open>repr\<close> of a string that has no quote and nothing to escape: the string between
      two apostrophes\<close>
  "quoted s = CHR 0x27 # s @ [CHR 0x27]"

definition os_error :: "string \<Rightarrow> string \<Rightarrow> path \<Rightarrow> exn" where
  \<comment> \<open>an \<^verbatim>\<open>OSError\<close> with errno, strerror and filename, whose \<^verbatim>\<open>str\<close> is
      \<^verbatim>\<open>[Errno N] strerror: \<close> followed by the \<^verbatim>\<open>repr\<close> of the filename\<close>
  "os_error errno strerror p =
     OSError (''[Errno '' @ errno @ ''] '' @ strerror @ '': '' @ quoted (path_str p))"

definition os_remove :: "path \<Rightarrow> unit io" where
  \<comment> \<open>\<^verbatim>\<open>os.remove\<close> unlinks a file and raises on a directory or a missing path\<close>
  "os_remove p = (\<lambda>w.
     if is_file (disk w) p
     then (Inr (), w\<lparr>disk := (disk w)\<lparr>files := filter (\<lambda>e. fst e \<noteq> p) (files (disk w))\<rparr>\<rparr>)
     else if is_dir (disk w) p
     then (Inl (os_error ''21'' ''Is a directory'' p), w)
     else (Inl (os_error ''2'' ''No such file or directory'' p), w))"

definition os_rmdir :: "path \<Rightarrow> unit io" where
  \<comment> \<open>\<^verbatim>\<open>os.rmdir\<close> removes an empty directory only\<close>
  "os_rmdir p = (\<lambda>w.
     if is_file (disk w) p
     then (Inl (os_error ''20'' ''Not a directory'' p), w)
     else if \<not> is_dir (disk w) p
     then (Inl (os_error ''2'' ''No such file or directory'' p), w)
     else if listdir (disk w) p \<noteq> []
     then (Inl (os_error ''39'' ''Directory not empty'' p), w)
     else (Inr (), w\<lparr>disk := (disk w)\<lparr>dirs := filter (\<lambda>q. q \<noteq> p) (dirs (disk w))\<rparr>\<rparr>))"

definition os_listdir :: "path \<Rightarrow> string list io" where
  "os_listdir p = (\<lambda>w.
     if is_file (disk w) p
     then (Inl (os_error ''20'' ''Not a directory'' p), w)
     else if \<not> is_dir (disk w) p
     then (Inl (os_error ''2'' ''No such file or directory'' p), w)
     else (Inr (listdir (disk w) p), w))"

definition write_file :: "path \<Rightarrow> string \<Rightarrow> unit io" where
  \<comment> \<open>\<^verbatim>\<open>with open(p, "wb") as buffer: buffer.write(c)\<close>: opening creates the file or
      truncates it; writing raises when the disk cannot hold the bytes, and the empty
      file stays\<close>
  "write_file p c = (\<lambda>w.
     if is_dir (disk w) p
     then (Inl (os_error ''21'' ''Is a directory'' p), w)
     else if p = [] \<or> \<not> is_dir (disk w) (butlast p)
     then (Inl (os_error ''2'' ''No such file or directory'' p), w)
     else let rest = filter (\<lambda>e. fst e \<noteq> p) (files (disk w));
              opened = (disk w)\<lparr>files := (p, []) # rest\<rparr>
          in if capacity opened < used opened + length c
             then (Inl (OSError ''[Errno 28] No space left on device''), w\<lparr>disk := opened\<rparr>)
             else (Inr (), w\<lparr>disk := (disk w)\<lparr>files := (p, c) # rest\<rparr>\<rparr>))"

definition tempdir :: path where
  \<comment> \<open>\<^verbatim>\<open>tempfile.gettempdir()\<close>\<close>
  "tempdir = [''tmp'']"

definition mkdtemp :: "path io" where
  \<comment> \<open>\<^verbatim>\<open>tempfile.mkdtemp()\<close>: the next candidate name that is not taken becomes a new
      directory under the temporary directory; it raises when no candidate is left
      or the temporary directory is not there\<close>
  "mkdtemp = (\<lambda>w.
     case dropWhile (\<lambda>n. path_exists (disk w) (tempdir @ [n])) (rand w) of
       [] \<Rightarrow> (Inl (OSError ''[Errno 17] No usable temporary directory name found''), w\<lparr>rand := []\<rparr>)
     | n # ns \<Rightarrow>
         if is_dir (disk w) tempdir
         then (Inr (tempdir @ [n]),
               w\<lparr>disk := (disk w)\<lparr>dirs := (tempdir @ [n]) # dirs (disk w)\<rparr>, rand := ns\<rparr>)
         else (Inl (os_error ''2'' ''No such file or directory'' (tempdir @ [n])),
               w\<lparr>rand := ns\<rparr>))"

definition uuid4_hex :: "string io" where
  \<comment> \<open>\<^verbatim>\<open>uuid.uuid4().hex\<close>: the next random name; it cannot fail\<close>
  "uuid4_hex = (\<lambda>w.
     case rand w of
       [] \<Rightarrow> (Inr ''00000000000000000000000000000000'', w)
     | n # ns \<Rightarrow> (Inr n, w\<lparr>rand := ns\<rparr>))"

fun remove_each :: "path \<Rightarrow> string list \<Rightarrow> unit io" where
  \<comment> \<open>\<^verbatim>\<open>for f in names: os.remove(os.path.join(d, f))\<close>\<close>
  "remove_each d [] = ret ()"
| "remove_each d (f # fs) = bnd (os_remove (d @ [f])) (\<lambda>_. remove_each d fs)"

definition clear_dir :: "path \<Rightarrow> unit io" where
  \<comment> \<open>\<^verbatim>\<open>for f in os.listdir(d): os.remove(os.path.join(d, f))\<close>\<close>
  "clear_dir d = bnd (os_listdir d) (\<lambda>names. remove_each d names)"

subsection \<open>What the source imports\<close>

text \<open>
  The library functions and the engine are not part of the repository; the handlers
  take them as parameters:
  \<^item> \<open>suffix_lower\<close> is \<^verbatim>\<open>Path(name).suffix.lower()\<close>;
  \<^item> \<open>http_str\<close> is \<^verbatim>\<open>str(e)\<close> of an \<^verbatim>\<open>HTTPException\<close> with the given status and detail;
  \<^item> \<open>json_load\<close> is \<^verbatim>\<open>json.load\<close> on the bytes of a file opened as UTF-8, \<open>None\<close> when
    decoding or parsing raises;
  \<^item> \<open>engine_image\<close> and \<open>engine_pdf\<close> are \<^verbatim>\<open>dots_parser.parse_image\<close> and
    \<^verbatim>\<open>dots_parser.parse_pdf\<close>: from the arguments and the file system to the message of
    the exception raised or the descriptors returned, and the file system left.
\<close>

record env =
  suffix_lower :: "string \<Rightarrow> string"
  http_str :: "nat \<Rightarrow> string \<Rightarrow> string"
  json_load :: "string \<Rightarrow> json option"
  engine_image :: "path \<Rightarrow> string \<Rightarrow> string \<Rightarrow> path \<Rightarrow> bool \<Rightarrow> fs \<Rightarrow> (string + descriptor list) \<times> fs"
  engine_pdf :: "path \<Rightarrow> string \<Rightarrow> string \<Rightarrow> path \<Rightarrow> fs \<Rightarrow> (string + descriptor list) \<times> fs"

definition exn_str :: "env \<Rightarrow> exn \<Rightarrow> string" where
  \<comment> \<open>\<^verbatim>\<open>str(e)\<close>\<close>
  "exn_str env e =
     (case e of
        HTTPException s d \<Rightarrow> http_str env s d
      | OSError m \<Rightarrow> m
      | IndexError \<Rightarrow> ''list index out of range''
      | EngineError m \<Rightarrow> m)"

definition call_parse_image :: "env \<Rightarrow> path \<Rightarrow> string \<Rightarrow> string \<Rightarrow> path \<Rightarrow> bool \<Rightarrow> descriptor list io" where
  "call_parse_image env input_path name prompt_mode save_dir fitz = (\<lambda>w.
     case engine_image env input_path name prompt_mode save_dir fitz (disk w) of
       (r, d') \<Rightarrow>
         ((case r of Inl m \<Rightarrow> Inl (EngineError m) | Inr ds \<Rightarrow> Inr ds),
          w\<lparr>disk := d', calls := calls w @ [ImageCall input_path name prompt_mode save_dir fitz]\<rparr>))"

definition call_parse_pdf :: "env \<Rightarrow> path \<Rightarrow> string \<Rightarrow> string \<Rightarrow> path \<Rightarrow> descriptor list io" where
  "call_parse_pdf env input_path name prompt_mode save_dir = (\<lambda>w.
     case engine_pdf env input_path name prompt_mode save_dir (disk w) of
       (r, d') \<Rightarrow>
         ((case r of Inl m \<Rightarrow> Inl (EngineError m) | Inr ds \<Rightarrow> Inr ds),
          w\<lparr>disk := d', calls := calls w @ [PdfCall input_path name prompt_mode save_dir]\<rparr>))"

subsection \<open>Reading a layout file\<close>

definition load_layout :: "env \<Rightarrow> fs \<Rightarrow> descriptor \<Rightarrow> json" where
  \<comment> \<open>lines 108-116 and 193-201: \<^verbatim>\<open>full_layout_info = {}\<close>, replaced by the parsed file
      when the path is truthy, exists, opens and parses; any exception leaves \<^verbatim>\<open>{}\<close>\<close>
  "load_layout env d r =
     (case layout_info_path r of
        None \<Rightarrow> JObj []
      | Some p \<Rightarrow>
          if p \<noteq> [] \<and> path_exists d p
          then (case read_file d p of
                  None \<Rightarrow> JObj []
                | Some c \<Rightarrow> (case json_load env c of None \<Rightarrow> JObj [] | Some j \<Rightarrow> j))
          else JObj [])"

definition format_result :: "env \<Rightarrow> fs \<Rightarrow> descriptor \<Rightarrow> page_entry" where
  \<comment> \<open>one turn of the loop of lines 192-206\<close>
  "format_result env d r =
     \<lparr>entry_page_no = page_no r, full_layout_info = load_layout env d r\<rparr>"

subsection \<open>The handlers\<close>

definition cleanup :: "path \<Rightarrow> path \<Rightarrow> path \<Rightarrow> unit io" where
  \<comment> \<open>the \<^verbatim>\<open>finally\<close> blocks, lines 125-132 and 215-222\<close>
  "cleanup temp_path temp_dir output_dir =
     bnd (os_path_exists temp_path) (\<lambda>e1.
     bnd (if e1 then os_remove temp_path else ret ()) (\<lambda>_.
     bnd (os_path_exists temp_dir) (\<lambda>e2.
     bnd (if e2 then os_rmdir temp_dir else ret ()) (\<lambda>_.
     bnd (os_path_exists output_dir) (\<lambda>e3.
     if e3 then bnd (clear_dir output_dir) (\<lambda>_. os_rmdir output_dir) else ret ())))))"

definition image_exts :: "string list" where
  "image_exts = [''.jpg'', ''.jpeg'', ''.png'']"

text \<open>
  Lines 38-56. \<^verbatim>\<open>Path(file.filename)\<close> is applied to a non-empty \<^verbatim>\<open>str\<close> and does not
  raise \<^verbatim>\<open>TypeError\<close>, so the handler of lines 46-47 has no branch here.
\<close>

definition validate_image :: "env \<Rightarrow> upload option \<Rightarrow> exn + (upload \<times> string)" where
  "validate_image env file =
     (case file of
        None \<Rightarrow> Inl (HTTPException 400 ''No file uploaded'')
      | Some f \<Rightarrow>
          (case filename f of
             None \<Rightarrow> Inl (HTTPException 400 ''Missing filename'')
           | Some name \<Rightarrow>
               if name = [] then Inl (HTTPException 400 ''Missing filename'')
               else let file_ext = suffix_lower env name in
                 if file_ext \<notin> set image_exts
                 then Inl (HTTPException 400 ''Invalid image format. Supported: .jpg, .jpeg, .png'')
                 else (case read_upload f of (file_content, f1) \<Rightarrow>
                   if file_content = [] then Inl (HTTPException 400 ''Uploaded file is empty'')
                   else Inr (seek0 f1, file_ext))))"

definition lift_exn :: "exn + 'a \<Rightarrow> 'a io" where
  "lift_exn r = (case r of Inl e \<Rightarrow> raise e | Inr x \<Rightarrow> ret x)"

text \<open>
  Lines 59-95. \<^verbatim>\<open>temp_path\<close> is a \<^verbatim>\<open>str\<close>, so the \<^verbatim>\<open>isinstance\<close> test of line 67 passes;
  \<^verbatim>\<open>tempfile.mkdtemp\<close> returns an absolute path, so \<^verbatim>\<open>os.path.abspath\<close> returns its argument.
  The result is \<open>(temp_dir, abs_temp_path, output_dir)\<close>.
\<close>

definition stage_image :: "upload \<Rightarrow> string \<Rightarrow> (path \<times> path \<times> path) io" where
  "stage_image f file_ext =
     bnd mkdtemp (\<lambda>temp_dir.
     bnd uuid4_hex (\<lambda>tok.
     let temp_path = temp_dir @ [''upload_'' @ tok @ file_ext];
         file_content = fst (read_upload f) in
     bnd (write_file temp_path file_content) (\<lambda>_.
     bnd (os_path_exists temp_path) (\<lambda>e1.
     if \<not> e1 then raise (HTTPException 500 ''Failed to create temp file'')
     else let abs_temp_path = temp_path in
     bnd (os_path_exists abs_temp_path) (\<lambda>e2.
     if \<not> e2 then raise (HTTPException 500 (''Temp file not found at '' @ path_str abs_temp_path))
     else
     bnd mkdtemp (\<lambda>output_dir.
     bnd (clear_dir output_dir) (\<lambda>_.
     ret (temp_dir, abs_temp_path, output_dir))))))))"

text \<open>Lines 97-116: the engine call, \<^verbatim>\<open>results[0]\<close> and the layout file.\<close>

definition image_try_body :: "env \<Rightarrow> string \<Rightarrow> bool \<Rightarrow> path \<Rightarrow> path \<Rightarrow> (descriptor list \<times> json) io" where
  "image_try_body env prompt_mode fitz abs_temp_path output_dir =
     bnd (call_parse_image env abs_temp_path ''api_image'' prompt_mode output_dir fitz) (\<lambda>rs.
     case rs of
       [] \<Rightarrow> raise IndexError
     | r # _ \<Rightarrow> (\<lambda>w. (Inr (rs, load_layout env (disk w) r), w)))"

text \<open>Lines 118-123: the handler of the inner \<^verbatim>\<open>try\<close>.\<close>

definition parser_error :: "env \<Rightarrow> exn \<Rightarrow> 'a io" where
  "parser_error env e = raise (HTTPException 500 (''Parser error: '' @ exn_str env e))"

text \<open>Lines 37-141, the body of the outer \<^verbatim>\<open>try\<close>.\<close>

definition parse_image_body :: "env \<Rightarrow> upload option \<Rightarrow> string \<Rightarrow> bool \<Rightarrow> payload io" where
  "parse_image_body env file prompt_mode fitz =
     bnd (lift_exn (validate_image env file)) (\<lambda>(f, file_ext).
     bnd (stage_image f file_ext) (\<lambda>(temp_dir, abs_temp_path, output_dir).
     bnd (try_finally
            (try_except
               (image_try_body env prompt_mode fitz abs_temp_path output_dir)
               (parser_error env))
            (cleanup abs_temp_path temp_dir output_dir))
         (\<lambda>(rs, layout).
     ret \<lparr>success = True, total_pages = length rs,
          results = [\<lparr>entry_page_no = Some 0, full_layout_info = layout\<rparr>]\<rparr>)))"

definition catch_all :: "env \<Rightarrow> 'a io \<Rightarrow> 'a io" where
  \<comment> \<open>\<^verbatim>\<open>except Exception as e: raise HTTPException(status_code=500, detail=str(e))\<close>\<close>
  "catch_all env m = try_except m (\<lambda>e. raise (HTTPException 500 (exn_str env e)))"

definition parse_image :: "env \<Rightarrow> upload option \<Rightarrow> string \<Rightarrow> bool \<Rightarrow> payload io" where
  "parse_image env file prompt_mode fitz =
     catch_all env (parse_image_body env file prompt_mode fitz)"

text \<open>
  Lines 154-170. The \<^verbatim>\<open>HTTPException\<close> of line 162 is raised inside the
  \<^verbatim>\<open>try ... except TypeError\<close> and passes through it.
\<close>

definition validate_pdf :: "env \<Rightarrow> upload option \<Rightarrow> exn + upload" where
  "validate_pdf env file =
     (case file of
        None \<Rightarrow> Inl (HTTPException 400 ''No file uploaded'')
      | Some f \<Rightarrow>
          (case filename f of
             None \<Rightarrow> Inl (HTTPException 400 ''Missing filename'')
           | Some name \<Rightarrow>
               if name = [] then Inl (HTTPException 400 ''Missing filename'')
               else if suffix_lower env name \<noteq> ''.pdf''
               then Inl (HTTPException 400 ''Invalid PDF format. Only .pdf files accepted'')
               else (case read_upload f of (file_content, f1) \<Rightarrow>
                 if file_content = [] then Inl (HTTPException 400 ''Uploaded file is empty'')
                 else Inr (seek0 f1))))"

text \<open>Lines 172-180; the result is \<open>(temp_dir, temp_path, output_dir)\<close>.\<close>

definition stage_pdf :: "upload \<Rightarrow> (path \<times> path \<times> path) io" where
  "stage_pdf f =
     bnd mkdtemp (\<lambda>temp_dir.
     bnd uuid4_hex (\<lambda>tok.
     let temp_path = temp_dir @ [''upload_'' @ tok @ ''.pdf''] in
     bnd (write_file temp_path (fst (read_upload f))) (\<lambda>_.
     bnd mkdtemp (\<lambda>output_dir.
     bnd (clear_dir output_dir) (\<lambda>_.
     ret (temp_dir, temp_path, output_dir))))))"

text \<open>Lines 183-212: the engine call, the loop over its descriptors and the payload.\<close>

definition pdf_try_body :: "env \<Rightarrow> string \<Rightarrow> path \<Rightarrow> path \<Rightarrow> payload io" where
  "pdf_try_body env prompt_mode temp_path output_dir =
     bnd (call_parse_pdf env temp_path ''api_pdf'' prompt_mode output_dir) (\<lambda>rs w.
     (Inr \<lparr>success = True, total_pages = length rs,
           results = map (format_result env (disk w)) rs\<rparr>, w))"

definition parse_pdf_body :: "env \<Rightarrow> upload option \<Rightarrow> string \<Rightarrow> bool \<Rightarrow> payload io" where
  "parse_pdf_body env file prompt_mode fitz =
     bnd (lift_exn (validate_pdf env file)) (\<lambda>f.
     bnd (stage_pdf f) (\<lambda>(temp_dir, temp_path, output_dir).
     try_finally
       (pdf_try_body env prompt_mode temp_path output_dir)
       (cleanup temp_path temp_dir output_dir)))"

definition parse_pdf :: "env \<Rightarrow> upload option \<Rightarrow> string \<Rightarrow> bool \<Rightarrow> payload io" where
  "parse_pdf env file prompt_mode fitz =
     catch_all env (parse_pdf_body env file prompt_mode fitz)"

text \<open>Lines 235-250: the checks of \<^verbatim>\<open>parse_file\<close> before it dispatches.\<close>

definition validate_file :: "env \<Rightarrow> upload option \<Rightarrow> exn + (upload \<times> string)" where
  "validate_file env file =
     (case file of
        None \<Rightarrow> Inl (HTTPException 400 ''No file uploaded'')
      | Some f \<Rightarrow>
          (case filename f of
             None \<Rightarrow> Inl (HTTPException 400 ''Missing filename'')
           | Some name \<Rightarrow>
               if name = [] then Inl (HTTPException 400 ''Missing filename'')
               else let file_ext = suffix_lower env name in
                 (case read_upload f of (file_content, f1) \<Rightarrow>
                   if file_content = [] then Inl (HTTPException 400 ''Uploaded file is empty'')
                   else Inr (seek0 f1, file_ext))))"

definition parse_file_body :: "env \<Rightarrow> upload option \<Rightarrow> string \<Rightarrow> bool \<Rightarrow> payload io" where
  "parse_file_body env file prompt_mode fitz =
     bnd (lift_exn (validate_file env file)) (\<lambda>(f, file_ext).
     if file_ext = ''.pdf'' then parse_pdf env (Some f) prompt_mode fitz
     else if file_ext \<in> set image_exts then parse_image env (Some f) prompt_mode fitz
     else raise (HTTPException 400 ''Unsupported file format''))"

definition parse_file :: "env \<Rightarrow> upload option \<Rightarrow> string \<Rightarrow> bool \<Rightarrow> payload io" where
  "parse_file env file prompt_mode fitz =
     catch_all env (parse_file_body env file prompt_mode fitz)"

text \<open>
  What the client sees: FastAPI answers a returned payload with status 200 and a raised
  \<^verbatim>\<open>HTTPException\<close> with its status and \<^verbatim>\<open>{"detail": detail}\<close>; any other exception
  leaving a handler is answered with status 500 and a fixed body.
\<close>

datatype response = Ok payload | Error nat string

definition respond :: "exn + payload \<Rightarrow> response" where
  "respond r =
     (case r of
        Inr p \<Rightarrow> Ok p
      | Inl (HTTPException s d) \<Rightarrow> Error s d
      | Inl _ \<Rightarrow> Error 500 ''Internal Server Error'')"

subsection \<open>A request up to the return of the engine\<close>

text \<open>
  The handlers up to and including the call of the engine: \<open>None\<close> when validation or
  staging raises before the engine is reached, otherwise the staged paths
  \<open>(temp_dir, temp_path, output_dir)\<close>, what the engine returned or raised, and the
  world it left. The theorems name the engine's answer to a request through these.
\<close>

definition image_run ::
  "env \<Rightarrow> upload option \<Rightarrow> string \<Rightarrow> bool \<Rightarrow> world
     \<Rightarrow> ((path \<times> path \<times> path) \<times> (exn + descriptor list) \<times> world) option" where
  "image_run env file prompt_mode fitz w =
     (case validate_image env file of
        Inl e \<Rightarrow> None
      | Inr (f, file_ext) \<Rightarrow>
          (case stage_image f file_ext w of
             (Inl e, w1) \<Rightarrow> None
           | (Inr (temp_dir, abs_temp_path, output_dir), w1) \<Rightarrow>
               Some ((temp_dir, abs_temp_path, output_dir),
                     call_parse_image env abs_temp_path ''api_image'' prompt_mode output_dir fitz w1)))"

definition pdf_run ::
  "env \<Rightarrow> upload option \<Rightarrow> string \<Rightarrow> world
     \<Rightarrow> ((path \<times> path \<times> path) \<times> (exn + descriptor list) \<times> world) option" where
  "pdf_run env file prompt_mode w =
     (case validate_pdf env file of
        Inl e \<Rightarrow> None
      | Inr f \<Rightarrow>
          (case stage_pdf f w of
             (Inl e, w1) \<Rightarrow> None
           | (Inr (temp_dir, temp_path, output_dir), w1) \<Rightarrow>
               Some ((temp_dir, temp_path, output_dir),
                     call_parse_pdf env temp_path ''api_pdf'' prompt_mode output_dir w1)))"


subsection \<open>A concrete environment\<close>

text \<open>
  Instances of the imported functions, used to run the handlers on concrete requests:
  the string of an \<^verbatim>\<open>HTTPException\<close> as Starlette prints it
  (\<^verbatim>\<open>f"{self.status_code}: {self.detail}"\<close>), the suffix of a POSIX path as
  \<^verbatim>\<open>pathlib\<close> computes it, a three-entry fragment of \<^verbatim>\<open>json.load\<close>, and engines that
  write one layout file per page into \<^verbatim>\<open>save_dir\<close>.
\<close>

fun digits :: "nat \<Rightarrow> string" where
  "digits n =
     (if n < 10 then [''0123456789'' ! n]
      else digits (n div 10) @ [''0123456789'' ! (n mod 10)])"

definition starlette_str :: "nat \<Rightarrow> string \<Rightarrow> string" where
  "starlette_str s d = digits s @ '': '' @ d"

definition lower_char :: "char \<Rightarrow> char" where
  "lower_char c =
     (case map_of (zip ''ABCDEFGHIJKLMNOPQRSTUVWXYZ'' ''abcdefghijklmnopqrstuvwxyz'') c of
        None \<Rightarrow> c
      | Some l \<Rightarrow> l)"

definition posix_suffix_lower :: "string \<Rightarrow> string" where
  "posix_suffix_lower name =
     (let base = rev (takeWhile (\<lambda>c. c \<noteq> CHR ''/'') (rev name));
          ext = rev (takeWhile (\<lambda>c. c \<noteq> CHR ''.'') (rev base))
      in if ext \<noteq> [] \<and> length ext + 1 < length base
         then map lower_char (CHR ''.'' # ext) else [])"

definition toy_json_load :: "string \<Rightarrow> json option" where
  "toy_json_load c =
     map_of [(''{}'', JObj []), (''[]'', JArr []),
             (''[0]'', JArr [JNum 0])] c"

definition put_file :: "path \<Rightarrow> string \<Rightarrow> fs \<Rightarrow> fs" where
  "put_file p c d = d\<lparr>files := (p, c) # filter (\<lambda>e. fst e \<noteq> p) (files d)\<rparr>"

definition page_engine_pdf ::
  "path \<Rightarrow> string \<Rightarrow> string \<Rightarrow> path \<Rightarrow> fs \<Rightarrow> (string + descriptor list) \<times> fs" where
  \<comment> \<open>a two-page document\<close>
  "page_engine_pdf input_path name prompt_mode save_dir d =
     (Inr [\<lparr>layout_info_path = Some (save_dir @ [name @ ''_page_0.json'']), page_no = Some 0\<rparr>,
           \<lparr>layout_info_path = Some (save_dir @ [name @ ''_page_1.json'']), page_no = Some 1\<rparr>],
      put_file (save_dir @ [name @ ''_page_1.json'']) ''[]''
        (put_file (save_dir @ [name @ ''_page_0.json'']) ''[0]'' d))"

definition page_engine_image ::
  "path \<Rightarrow> string \<Rightarrow> string \<Rightarrow> path \<Rightarrow> bool \<Rightarrow> fs \<Rightarrow> (string + descriptor list) \<times> fs" where
  "page_engine_image input_path name prompt_mode save_dir fitz d =
     (Inr [\<lparr>layout_info_path = Some (save_dir @ [name @ ''.json'']), page_no = None\<rparr>],
      put_file (save_dir @ [name @ ''.json'']) ''[0]'' d)"

definition demo_env :: env where
  "demo_env =
     \<lparr>suffix_lower = posix_suffix_lower, http_str = starlette_str, json_load = toy_json_load,
      engine_image = page_engine_image, engine_pdf = page_engine_pdf\<rparr>"

text \<open>Engines that raise.\<close>

definition failing_engine_pdf ::
  "string \<Rightarrow> path \<Rightarrow> string \<Rightarrow> string \<Rightarrow> path \<Rightarrow> fs \<Rightarrow> (string + descriptor list) \<times> fs" where
  "failing_engine_pdf m input_path name prompt_mode save_dir d = (Inl m, d)"

definition failing_engine_image ::
  "string \<Rightarrow> path \<Rightarrow> string \<Rightarrow> string \<Rightarrow> path \<Rightarrow> bool \<Rightarrow> fs \<Rightarrow> (string + descriptor list) \<times> fs" where
  "failing_engine_image m input_path name prompt_mode save_dir fitz d = (Inl m, d)"

text \<open>An engine that returns a fixed list of descriptors and writes nothing.\<close>

definition fixed_engine_image ::
  "descriptor list \<Rightarrow> path \<Rightarrow> string \<Rightarrow> string \<Rightarrow> path \<Rightarrow> bool \<Rightarrow> fs
     \<Rightarrow> (string + descriptor list) \<times> fs" where
  "fixed_engine_image rs input_path name prompt_mode save_dir fitz d = (Inr rs, d)"

text \<open>An engine that keeps its page images in a directory of its own under \<^verbatim>\<open>save_dir\<close>.\<close>

definition subdir_engine_pdf ::
  "path \<Rightarrow> string \<Rightarrow> string \<Rightarrow> path \<Rightarrow> fs \<Rightarrow> (string + descriptor list) \<times> fs" where
  "subdir_engine_pdf input_path name prompt_mode save_dir d =
     (Inr [\<lparr>layout_info_path = Some (save_dir @ [name @ ''_page_0.json'']), page_no = Some 0\<rparr>],
      put_file (save_dir @ [name @ ''_page_0.json'']) ''{}''
        (d\<lparr>dirs := (save_dir @ [''images'']) # dirs d\<rparr>))"

definition subdir_engine_image ::
  "path \<Rightarrow> string \<Rightarrow> string \<Rightarrow> path \<Rightarrow> bool \<Rightarrow> fs \<Rightarrow> (string + descriptor list) \<times> fs" where
  "subdir_engine_image input_path name prompt_mode save_dir fitz d =
     (Inr [\<lparr>layout_info_path = Some (save_dir @ [name @ ''.json'']), page_no = None\<rparr>],
      put_file (save_dir @ [name @ ''.json'']) ''{}''
        (d\<lparr>dirs := (save_dir @ [''images'']) # dirs d\<rparr>))"

text \<open>
  An engine whose four pages have no layout path, a path that is not there, a file
  that is not JSON, and a good file.
\<close>

definition patchy_engine_pdf ::
  "path \<Rightarrow> string \<Rightarrow> string \<Rightarrow> path \<Rightarrow> fs \<Rightarrow> (string + descriptor list) \<times> fs" where
  "patchy_engine_pdf input_path name prompt_mode save_dir d =
     (Inr [\<lparr>layout_info_path = None, page_no = Some 0\<rparr>,
           \<lparr>layout_info_path = Some (save_dir @ [''missing.json'']), page_no = Some 1\<rparr>,
           \<lparr>layout_info_path = Some (save_dir @ [''broken.json'']), page_no = Some 2\<rparr>,
           \<lparr>layout_info_path = Some (save_dir @ [''good.json'']), page_no = Some 3\<rparr>],
      put_file (save_dir @ [''good.json'']) ''[]''
        (put_file (save_dir @ [''broken.json'']) ''[0'' d))"

definition broken_engine_image ::
  "path \<Rightarrow> string \<Rightarrow> string \<Rightarrow> path \<Rightarrow> bool \<Rightarrow> fs \<Rightarrow> (string + descriptor list) \<times> fs" where
  "broken_engine_image input_path name prompt_mode save_dir fitz d =
     (Inr [\<lparr>layout_info_path = Some (save_dir @ [''broken.json'']), page_no = None\<rparr>],
      put_file (save_dir @ [''broken.json'']) ''[0'' d)"



definition world0 :: world where
  \<comment> \<open>an empty temporary directory on a disk of 4096 bytes\<close>
  "world0 =
     \<lparr>disk = \<lparr>files = [], dirs = [[''tmp'']], capacity = 4096\<rparr>,
      rand = [''a'', ''b'', ''c'', ''d''], calls = []\<rparr>"

definition full_world :: world where
  \<comment> \<open>the same with room for four bytes\<close>
  "full_world =
     \<lparr>disk = \<lparr>files = [], dirs = [[''tmp'']], capacity = 4\<rparr>,
      rand = [''a'', ''b'', ''c'', ''d''], calls = []\<rparr>"

definition upload_of :: "string \<Rightarrow> string \<Rightarrow> upload" where
  "upload_of name bytes = \<lparr>filename = Some name, content = bytes, pos = 0\<rparr>"

definition demo_mode :: string where
  "demo_mode = ''prompt_layout_all_en''"

definition demo_pdf :: "upload option" where
  "demo_pdf = Some (upload_of ''scan.pdf'' ''%PDF-1.4'')"

definition demo_image :: "upload option" where
  "demo_image = Some (upload_of ''Scan.PNG'' ''PNGDATA'')"

text \<open>The environment with the engines swapped for the ones above.\<close>

definition failing_env :: env where
  "failing_env =
     demo_env\<lparr>engine_image := failing_engine_image ''boom'',
              engine_pdf := failing_engine_pdf ''boom''\<rparr>"

definition subdir_env :: env where
  "subdir_env = demo_env\<lparr>engine_image := subdir_engine_image, engine_pdf := subdir_engine_pdf\<rparr>"

definition patchy_env :: env where
  "patchy_env = demo_env\<lparr>engine_image := broken_engine_image, engine_pdf := patchy_engine_pdf\<rparr>"


definition empty_env :: env where
  "empty_env = demo_env\<lparr>engine_image := fixed_engine_image []\<rparr>"

definition twin_env :: env where
  "twin_env =
     demo_env\<lparr>engine_image := fixed_engine_image
       [\<lparr>layout_info_path = None, page_no = Some 0\<rparr>,
        \<lparr>layout_info_path = None, page_no = Some 1\<rparr>]\<rparr>"

text \<open>
  The world the engine leaves when \<open>demo_pdf\<close> or \<open>demo_image\<close> is posted in \<open>world0\<close>,
  and the paths staged for it: both random draws and both directories are the same in
  every environment above.
\<close>

definition world_after_pdf :: "env \<Rightarrow> world" where
  "world_after_pdf env = snd (snd (the (pdf_run env demo_pdf demo_mode world0)))"

definition world_after_image :: "env \<Rightarrow> world" where
  "world_after_image env = snd (snd (the (image_run env demo_image demo_mode False world0)))"

definition staged_pdf :: "path \<times> path \<times> path" where
  "staged_pdf = ([''tmp'', ''a''], [''tmp'', ''a'', ''upload_b.pdf''], [''tmp'', ''c''])"

definition staged_image :: "path \<times> path \<times> path" where
  "staged_image = ([''tmp'', ''a''], [''tmp'', ''a'', ''upload_b.png''], [''tmp'', ''c''])"

section \<open>How a request ends\<close>

subsection \<open>The catch-all and the validation failures\<close>

lemma catch_all_apply:
  "catch_all env m w =
     (case m w of
        (Inl e, w') \<Rightarrow> (Inl (HTTPException 500 (exn_str env e)), w')
      | (Inr x, w') \<Rightarrow> (Inr x, w'))"
  by (simp add: catch_all_def try_except_def raise_def split: prod.splits sum.splits)

lemma exn_str_http: "exn_str env (HTTPException s d) = http_str env s d"
  by (simp add: exn_str_def)

lemma bnd_lift_Inl: "bnd (lift_exn (Inl e)) f w = (Inl e, w)"
  by (simp add: bnd_def lift_exn_def raise_def)

lemma bnd_lift_Inr: "bnd (lift_exn (Inr x)) f w = f x w"
  by (simp add: bnd_def lift_exn_def ret_def)

lemma parse_image_invalid:
  "validate_image env file = Inl e \<Longrightarrow>
   parse_image env file pm fz w = (Inl (HTTPException 500 (exn_str env e)), w)"
  by (simp add: parse_image_def parse_image_body_def catch_all_apply bnd_lift_Inl)

lemma parse_pdf_invalid:
  "validate_pdf env file = Inl e \<Longrightarrow>
   parse_pdf env file pm fz w = (Inl (HTTPException 500 (exn_str env e)), w)"
  by (simp add: parse_pdf_def parse_pdf_body_def catch_all_apply bnd_lift_Inl)

lemma parse_file_invalid:
  "validate_file env file = Inl e \<Longrightarrow>
   parse_file env file pm fz w = (Inl (HTTPException 500 (exn_str env e)), w)"
  by (simp add: parse_file_def parse_file_body_def catch_all_apply bnd_lift_Inl)

lemma parse_file_unsupported:
  "validate_file env file = Inr (f, ext) \<Longrightarrow> ext \<noteq> ''.pdf'' \<Longrightarrow> ext \<notin> set image_exts \<Longrightarrow>
   parse_file env file pm fz w =
     (Inl (HTTPException 500 (http_str env 400 ''Unsupported file format'')), w)"
  by (simp add: parse_file_def parse_file_body_def catch_all_apply bnd_lift_Inr raise_def
        exn_str_def)

subsection \<open>A request that reaches the engine\<close>

text \<open>
  Once the engine has answered, the response is decided by the engine's answer and by
  the \<^verbatim>\<open>finally\<close> block: an exception of the cleanup replaces whatever the \<^verbatim>\<open>try\<close>
  block produced.
\<close>

lemma pdf_outcome:
  assumes "pdf_run env file pm w = Some ((td, tp, od), r, w2)"
  shows "parse_pdf env file pm fz w =
     (case cleanup tp td od w2 of
        (Inl e, w3) \<Rightarrow> (Inl (HTTPException 500 (exn_str env e)), w3)
      | (Inr u, w3) \<Rightarrow>
          (case r of
             Inl e \<Rightarrow> (Inl (HTTPException 500 (exn_str env e)), w3)
           | Inr rs \<Rightarrow>
               (Inr \<lparr>success = True, total_pages = length rs,
                     results = map (format_result env (disk w2)) rs\<rparr>, w3)))"
proof -
  from assms obtain f w1 where
    v: "validate_pdf env file = Inr f" and
    s: "stage_pdf f w = (Inr (td, tp, od), w1)" and
    c: "call_parse_pdf env tp ''api_pdf'' pm od w1 = (r, w2)"
    by (auto simp: pdf_run_def split: sum.splits prod.splits)
  have body: "pdf_try_body env pm tp od w1 =
      (case r of Inl e \<Rightarrow> (Inl e, w2)
       | Inr rs \<Rightarrow> (Inr \<lparr>success = True, total_pages = length rs,
                     results = map (format_result env (disk w2)) rs\<rparr>, w2))"
    by (simp add: pdf_try_body_def bnd_def c split: sum.splits)
  have "parse_pdf env file pm fz w =
      catch_all env (try_finally (pdf_try_body env pm tp od) (cleanup tp td od)) w1"
    by (simp add: parse_pdf_def parse_pdf_body_def catch_all_apply v lift_exn_def ret_def
          bnd_def s)
  then show ?thesis
    by (simp add: catch_all_apply try_finally_def body split: prod.splits sum.splits)
qed

lemma image_outcome:
  assumes "image_run env file pm fz w = Some ((td, tp, od), r, w2)"
  shows "parse_image env file pm fz w =
     (case cleanup tp td od w2 of
        (Inl e, w3) \<Rightarrow> (Inl (HTTPException 500 (exn_str env e)), w3)
      | (Inr u, w3) \<Rightarrow>
          (case r of
             Inl e \<Rightarrow>
               (Inl (HTTPException 500 (http_str env 500 (''Parser error: '' @ exn_str env e))), w3)
           | Inr [] \<Rightarrow>
               (Inl (HTTPException 500
                      (http_str env 500 (''Parser error: '' @ exn_str env IndexError))), w3)
           | Inr (r0 # rest) \<Rightarrow>
               (Inr \<lparr>success = True, total_pages = length (r0 # rest),
                     results = [\<lparr>entry_page_no = Some 0,
                                 full_layout_info = load_layout env (disk w2) r0\<rparr>]\<rparr>, w3)))"
proof -
  from assms obtain f ext w1 where
    v: "validate_image env file = Inr (f, ext)" and
    s: "stage_image f ext w = (Inr (td, tp, od), w1)" and
    c: "call_parse_image env tp ''api_image'' pm od fz w1 = (r, w2)"
    by (auto simp: image_run_def split: sum.splits prod.splits)
  let ?rb = "case r of
         Inl e \<Rightarrow> Inl (HTTPException 500 (''Parser error: '' @ exn_str env e))
       | Inr [] \<Rightarrow> Inl (HTTPException 500 (''Parser error: '' @ exn_str env IndexError))
       | Inr (r0 # rest) \<Rightarrow> Inr (r0 # rest, load_layout env (disk w2) r0)"
  have body: "try_except (image_try_body env pm fz tp od) (parser_error env) w1 = (?rb, w2)"
    by (simp add: try_except_def image_try_body_def bnd_def c raise_def parser_error_def
             split: sum.splits list.splits)
  have tf: "try_finally (try_except (image_try_body env pm fz tp od) (parser_error env))
              (cleanup tp td od) w1 =
      (case cleanup tp td od w2 of (Inl e, w3) \<Rightarrow> (Inl e, w3) | (Inr u, w3) \<Rightarrow> (?rb, w3))"
    by (simp add: try_finally_def body)
  have unfold: "parse_image env file pm fz w =
      catch_all env
        (bnd (try_finally (try_except (image_try_body env pm fz tp od) (parser_error env))
                (cleanup tp td od))
             (\<lambda>(rs, layout). ret \<lparr>success = True, total_pages = length rs,
                results = [\<lparr>entry_page_no = Some 0, full_layout_info = layout\<rparr>]\<rparr>)) w1"
    by (simp add: parse_image_def parse_image_body_def catch_all_apply v lift_exn_def ret_def
          bnd_def s)
  obtain rc w3 where cl: "cleanup tp td od w2 = (rc, w3)"
    by (cases "cleanup tp td od w2")
  show ?thesis
  proof (cases rc)
    case (Inl e)
    then show ?thesis
      by (simp add: unfold catch_all_apply bnd_def tf cl)
  next
    case (Inr u)
    then show ?thesis
      by (simp add: unfold catch_all_apply bnd_def tf cl ret_def exn_str_http
               split: sum.splits list.splits)
  qed
qed


lemma image_run_None:
  "image_run env file pm fz w = None \<Longrightarrow> \<exists>e. fst (parse_image env file pm fz w) = Inl e"
  by (auto simp: image_run_def parse_image_def parse_image_body_def catch_all_apply
        lift_exn_def raise_def ret_def bnd_def split: sum.splits prod.splits)

section \<open>Validation, layout loading and delegation\<close>

text \<open>
  An upload that has a non-empty filename is rejected on its extension alone, before its
  content is read.
\<close>

lemma validate_image_bad_ext:
  "filename f = Some name \<Longrightarrow> name \<noteq> [] \<Longrightarrow> suffix_lower env name \<notin> set image_exts \<Longrightarrow>
   validate_image env (Some f) =
     Inl (HTTPException 400 ''Invalid image format. Supported: .jpg, .jpeg, .png'')"
  by (simp add: validate_image_def)

lemma validate_pdf_bad_ext:
  "filename f = Some name \<Longrightarrow> name \<noteq> [] \<Longrightarrow> suffix_lower env name \<noteq> ''.pdf'' \<Longrightarrow>
   validate_pdf env (Some f) =
     Inl (HTTPException 400 ''Invalid PDF format. Only .pdf files accepted'')"
  by (simp add: validate_pdf_def)

lemma validate_file_nonempty:
  "filename f = Some name \<Longrightarrow> name \<noteq> [] \<Longrightarrow>
   validate_file env (Some f) =
     (if drop (pos f) (content f) = [] then Inl (HTTPException 400 ''Uploaded file is empty'')
      else Inr (seek0 (snd (read_upload f)), suffix_lower env name))"
  by (simp add: validate_file_def read_upload_def Let_def)

lemma validate_pdf_ok:
  "filename f = Some name \<Longrightarrow> name \<noteq> [] \<Longrightarrow> suffix_lower env name = ''.pdf'' \<Longrightarrow>
   validate_pdf env (Some f) =
     (if drop (pos f) (content f) = [] then Inl (HTTPException 400 ''Uploaded file is empty'')
      else Inr (f\<lparr>pos := 0\<rparr>))"
  by (simp add: validate_pdf_def read_upload_def seek0_def)

text \<open>
  \<open>parse_pdf\<close> looks at the upload only through \<open>validate_pdf\<close>.
\<close>

lemma parse_pdf_by_validation:
  "validate_pdf env file = validate_pdf env file' \<Longrightarrow>
   parse_pdf env file pm fz w = parse_pdf env file' pm fz w"
  by (simp add: parse_pdf_def parse_pdf_body_def catch_all_apply bnd_def)


section \<open>The scenarios evaluated\<close>

text \<open>
  What the staging and the engine produce in each scenario, and what the \<open>finally\<close> block does
  in the world the engine leaves.
\<close>

lemma run_pdf_demo:
  "pdf_run demo_env demo_pdf demo_mode world0 =
     Some (staged_pdf,
           Inr [\<lparr>layout_info_path = Some [''tmp'', ''c'', ''api_pdf_page_0.json''], page_no = Some 0\<rparr>,
                \<lparr>layout_info_path = Some [''tmp'', ''c'', ''api_pdf_page_1.json''], page_no = Some 1\<rparr>],
           world_after_pdf demo_env)"
  by code_simp

lemma run_pdf_failing:
  "pdf_run failing_env demo_pdf demo_mode world0 =
     Some (staged_pdf, Inl (EngineError ''boom''), world_after_pdf failing_env)"
  by code_simp

lemma run_pdf_subdir:
  "pdf_run subdir_env demo_pdf demo_mode world0 =
     Some (staged_pdf,
           Inr [\<lparr>layout_info_path = Some [''tmp'', ''c'', ''api_pdf_page_0.json''], page_no = Some 0\<rparr>],
           world_after_pdf subdir_env)"
  by code_simp


lemma run_image_demo:
  "image_run demo_env demo_image demo_mode False world0 =
     Some (staged_image,
           Inr [\<lparr>layout_info_path = Some [''tmp'', ''c'', ''api_image.json''], page_no = None\<rparr>],
           world_after_image demo_env)"
  by code_simp

lemma run_image_failing:
  "image_run failing_env demo_image demo_mode False world0 =
     Some (staged_image, Inl (EngineError ''boom''), world_after_image failing_env)"
  by code_simp

lemma run_image_subdir:
  "image_run subdir_env demo_image demo_mode False world0 =
     Some (staged_image,
           Inr [\<lparr>layout_info_path = Some [''tmp'', ''c'', ''api_image.json''], page_no = None\<rparr>],
           world_after_image subdir_env)"
  by code_simp


lemma run_image_empty:
  "image_run empty_env demo_image demo_mode False world0 =
     Some (staged_image, Inr [], world_after_image empty_env)"
  by code_simp

lemma cleanup_pdf_ok:
  "fst (cleanup [''tmp'', ''a'', ''upload_b.pdf''] [''tmp'', ''a''] [''tmp'', ''c'']
          (world_after_pdf demo_env)) = Inr ()"
  "fst (cleanup [''tmp'', ''a'', ''upload_b.pdf''] [''tmp'', ''a''] [''tmp'', ''c'']
          (world_after_pdf failing_env)) = Inr ()"
  "fst (cleanup [''tmp'', ''a'', ''upload_b.pdf''] [''tmp'', ''a''] [''tmp'', ''c'']
          (world_after_pdf patchy_env)) = Inr ()"
  by code_simp+

lemma cleanup_image_ok:
  "fst (cleanup [''tmp'', ''a'', ''upload_b.png''] [''tmp'', ''a''] [''tmp'', ''c'']
          (world_after_image demo_env)) = Inr ()"
  "fst (cleanup [''tmp'', ''a'', ''upload_b.png''] [''tmp'', ''a''] [''tmp'', ''c'']
          (world_after_image failing_env)) = Inr ()"
  "fst (cleanup [''tmp'', ''a'', ''upload_b.png''] [''tmp'', ''a''] [''tmp'', ''c'']
          (world_after_image patchy_env)) = Inr ()"
  "fst (cleanup [''tmp'', ''a'', ''upload_b.png''] [''tmp'', ''a''] [''tmp'', ''c'']
          (world_after_image empty_env)) = Inr ()"
  by code_simp+

lemma cleanup_subdir_fails:
  "fst (cleanup [''tmp'', ''a'', ''upload_b.pdf''] [''tmp'', ''a''] [''tmp'', ''c'']
          (world_after_pdf subdir_env)) =
     Inl (os_error ''21'' ''Is a directory'' [''tmp'', ''c'', ''images''])"
  "fst (cleanup [''tmp'', ''a'', ''upload_b.png''] [''tmp'', ''a''] [''tmp'', ''c'']
          (world_after_image subdir_env)) =
     Inl (os_error ''21'' ''Is a directory'' [''tmp'', ''c'', ''images''])"
  by code_simp+

lemma subdir_error_str:
  "exn_str env (os_error ''21'' ''Is a directory'' [''tmp'', ''c'', ''images'']) =
     ''[Errno 21] Is a directory: '' @ quoted ''/tmp/c/images''"
  by (simp add: exn_str_def os_error_def path_str_def)

lemma demo_pdf_entries:
  "format_result demo_env (disk (world_after_pdf demo_env))
     \<lparr>layout_info_path = Some [''tmp'', ''c'', ''api_pdf_page_0.json''], page_no = Some 0\<rparr> =
     \<lparr>entry_page_no = Some 0, full_layout_info = JArr [JNum 0]\<rparr>"
  "format_result demo_env (disk (world_after_pdf demo_env))
     \<lparr>layout_info_path = Some [''tmp'', ''c'', ''api_pdf_page_1.json''], page_no = Some 1\<rparr> =
     \<lparr>entry_page_no = Some 1, full_layout_info = JArr []\<rparr>"
  by code_simp+

lemma demo_image_layout:
  "load_layout demo_env (disk (world_after_image demo_env))
     \<lparr>layout_info_path = Some [''tmp'', ''c'', ''api_image.json''], page_no = None\<rparr> =
     JArr [JNum 0]"
  by code_simp

lemma digits_400_500: "digits 400 = ''400''" "digits 500 = ''500''"
  by code_simp+

lemma demo_http_str:
  "http_str demo_env 400 d = ''400: '' @ d" "http_str demo_env 500 d = ''500: '' @ d"
  "http_str failing_env 500 d = ''500: '' @ d" "http_str empty_env 500 d = ''500: '' @ d"
  by (simp_all add: demo_env_def failing_env_def empty_env_def starlette_str_def digits_400_500)

lemma demo_rejects:
  "validate_image demo_env (Some (upload_of ''notes.txt'' ''hello'')) =
     Inl (HTTPException 400 ''Invalid image format. Supported: .jpg, .jpeg, .png'')"
  "validate_pdf demo_env (Some (upload_of ''scan.pdf'' [])) =
     Inl (HTTPException 400 ''Uploaded file is empty'')"
  "validate_file demo_env None = Inl (HTTPException 400 ''No file uploaded'')"
  "validate_file demo_env (Some (upload_of ''notes.txt'' ''hello'')) =
     Inr (upload_of ''notes.txt'' ''hello'', ''.txt'')"
  by code_simp+

lemma demo_suffix:
  "suffix_lower demo_env ''notes.txt'' = ''.txt''"
  "suffix_lower failing_env ''scan.pdf'' = ''.pdf''"
  by code_simp+


lemma demo_image_response:
  "fst (parse_image demo_env demo_image demo_mode False world0) =
     Inr \<lparr>success = True, total_pages = 1,
          results = [\<lparr>entry_page_no = Some 0, full_layout_info = JArr [JNum 0]\<rparr>]\<rparr>"
  by code_simp

lemma failing_pdf_response:
  "parse_pdf failing_env demo_pdf demo_mode False world0 =
     (Inl (HTTPException 500 ''boom''),
      \<lparr>disk = \<lparr>files = [], dirs = [[''tmp'']], capacity = 4096\<rparr>, rand = [''d''],
       calls = [PdfCall [''tmp'', ''a'', ''upload_b.pdf''] ''api_pdf'' ''prompt_layout_all_en''
                  [''tmp'', ''c'']]\<rparr>)"
  by code_simp


section \<open>The claims\<close>

subsection \<open>C1: validation failures\<close>

text \<open>
  Claim C1 says that an upload failing validation is answered with status 400 and the
  validation message as detail, on all three endpoints. The handlers do raise
  \<open>HTTPException(400, msg)\<close>, but inside the \<open>try\<close> whose \<open>except Exception\<close> clause catches it
  and raises \<open>HTTPException(500, str(e))\<close>. What the code does: whenever validation rejects
  the upload with status 400 and message \<open>msg\<close>, the response has status 500 and its detail is
  the string form of the 400 exception, on \<open>/parse/image\<close>, \<open>/parse/pdf\<close> and \<open>/parse/file\<close>
  (for the last one also when the extension is in neither allow-list).
\<close>

theorem validation_failure_answered_500:
  "(validate_image env file1 = Inl (HTTPException 400 msg1) \<longrightarrow>
      respond (fst (parse_image env file1 pm fz w)) = Error 500 (http_str env 400 msg1)) \<and>
   (validate_pdf env file2 = Inl (HTTPException 400 msg2) \<longrightarrow>
      respond (fst (parse_pdf env file2 pm fz w)) = Error 500 (http_str env 400 msg2)) \<and>
   (validate_file env file3 = Inl (HTTPException 400 msg3) \<longrightarrow>
      respond (fst (parse_file env file3 pm fz w)) = Error 500 (http_str env 400 msg3)) \<and>
   (validate_file env file4 = Inr (f, ext) \<and> ext \<noteq> ''.pdf'' \<and> ext \<notin> set image_exts \<longrightarrow>
      respond (fst (parse_file env file4 pm fz w)) =
        Error 500 (http_str env 400 ''Unsupported file format''))"
  by (simp add: parse_image_invalid parse_pdf_invalid parse_file_invalid parse_file_unsupported
        exn_str_http respond_def)

theorem validation_failure_answered_500_witness:
  "respond (fst (parse_image demo_env (Some (upload_of ''notes.txt'' ''hello'')) demo_mode False world0)) =
     Error 500 ''400: Invalid image format. Supported: .jpg, .jpeg, .png'' \<and>
   respond (fst (parse_pdf demo_env (Some (upload_of ''scan.pdf'' [])) demo_mode False world0)) =
     Error 500 ''400: Uploaded file is empty'' \<and>
   respond (fst (parse_file demo_env None demo_mode False world0)) =
     Error 500 ''400: No file uploaded'' \<and>
   respond (fst (parse_file demo_env (Some (upload_of ''notes.txt'' ''hello'')) demo_mode False world0)) =
     Error 500 ''400: Unsupported file format''"
  using validation_failure_answered_500
    [where env = demo_env and pm = demo_mode and fz = False and w = world0
       and ?file1.0 = "Some (upload_of ''notes.txt'' ''hello'')"
       and ?msg1.0 = "''Invalid image format. Supported: .jpg, .jpeg, .png''"
       and ?file2.0 = "Some (upload_of ''scan.pdf'' [])"
       and ?msg2.0 = "''Uploaded file is empty''"
       and ?file3.0 = None and ?msg3.0 = "''No file uploaded''"
       and ?file4.0 = "Some (upload_of ''notes.txt'' ''hello'')"
       and f = "upload_of ''notes.txt'' ''hello''" and ext = "''.txt''"]
  by (simp add: demo_rejects demo_http_str image_exts_def)

subsection \<open>C2: removal of the temporary paths\<close>

text \<open>
  Claim C2 says that every temporary file and directory of a request is removed whatever the
  outcome. The \<open>finally\<close> block only covers the engine call: the upload is written before the
  inner \<open>try\<close> starts, and the block itself stops at the first removal that raises. On a full
  disk the write of the upload raises, and the request ends with the temporary directory
  \<open>/tmp/a\<close> and the (empty) temporary file still there; when the engine leaves a
  sub-directory in the output directory, \<open>os.remove\<close> raises on it and the output directory
  survives. Both disks are empty but for \<open>/tmp\<close> before the request.
\<close>

theorem temp_paths_survive_failed_requests:
  "parse_pdf demo_env demo_pdf demo_mode False full_world =
     (Inl (HTTPException 500 ''[Errno 28] No space left on device''),
      \<lparr>disk = \<lparr>files = [([''tmp'', ''a'', ''upload_b.pdf''], [])],
               dirs = [[''tmp'', ''a''], [''tmp'']], capacity = 4\<rparr>,
       rand = [''c'', ''d''], calls = []\<rparr>) \<and>
   parse_image demo_env demo_image demo_mode False full_world =
     (Inl (HTTPException 500 ''[Errno 28] No space left on device''),
      \<lparr>disk = \<lparr>files = [([''tmp'', ''a'', ''upload_b.png''], [])],
               dirs = [[''tmp'', ''a''], [''tmp'']], capacity = 4\<rparr>,
       rand = [''c'', ''d''], calls = []\<rparr>) \<and>
   disk (snd (parse_pdf subdir_env demo_pdf demo_mode False world0)) =
     \<lparr>files = [], dirs = [[''tmp'', ''c'', ''images''], [''tmp'', ''c''], [''tmp'']],
      capacity = 4096\<rparr> \<and>
   disk full_world = \<lparr>files = [], dirs = [[''tmp'']], capacity = 4\<rparr> \<and>
   disk world0 = \<lparr>files = [], dirs = [[''tmp'']], capacity = 4096\<rparr>"
  by code_simp

subsection \<open>C3: a cleanup failure after a successful parse\<close>

text \<open>
  Claim C3 says that a failure during cleanup never replaces a success response. The code has
  no handler around the removals of the \<^verbatim>\<open>finally\<close> block, so the statement that holds is the
  opposite one. When the engine has returned its descriptors \<open>rs\<close> (at least one for an image):
  \<^item> if the cleanup raises nothing, the response is the success payload: \<open>success\<close> true,
    \<open>total_pages\<close> the length of \<open>rs\<close>, and the entries built from \<open>rs\<close> (for an image the
    single entry with page 0 and the layout of the first descriptor);
  \<^item> if the cleanup raises, the response has status 500 and the message of the cleanup's
    exception as detail.
\<close>

theorem cleanup_exception_replaces_result:
  "(pdf_run env file pm w = Some ((td, tp, od), Inr rs, w2) \<longrightarrow>
      (fst (cleanup tp td od w2) = Inr () \<longrightarrow>
         respond (fst (parse_pdf env file pm fz w)) =
           Ok \<lparr>success = True, total_pages = length rs,
               results = map (format_result env (disk w2)) rs\<rparr>) \<and>
      (fst (cleanup tp td od w2) = Inl e \<longrightarrow>
         respond (fst (parse_pdf env file pm fz w)) = Error 500 (exn_str env e))) \<and>
   (image_run env file' pm fz w' = Some ((td', tp', od'), Inr (r0 # rest), w2') \<longrightarrow>
      (fst (cleanup tp' td' od' w2') = Inr () \<longrightarrow>
         respond (fst (parse_image env file' pm fz w')) =
           Ok \<lparr>success = True, total_pages = Suc (length rest),
               results = [\<lparr>entry_page_no = Some 0,
                           full_layout_info = load_layout env (disk w2') r0\<rparr>]\<rparr>) \<and>
      (fst (cleanup tp' td' od' w2') = Inl e' \<longrightarrow>
         respond (fst (parse_image env file' pm fz w')) = Error 500 (exn_str env e')))"
proof (intro conjI impI)
  assume run: "pdf_run env file pm w = Some ((td, tp, od), Inr rs, w2)"
  {
    assume "fst (cleanup tp td od w2) = Inr ()"
    then obtain w3 where cl: "cleanup tp td od w2 = (Inr (), w3)"
      by (cases "cleanup tp td od w2") auto
    from pdf_outcome [OF run, of fz] cl
    show "respond (fst (parse_pdf env file pm fz w)) =
        Ok \<lparr>success = True, total_pages = length rs,
            results = map (format_result env (disk w2)) rs\<rparr>"
      by (simp add: respond_def)
  }
  {
    assume "fst (cleanup tp td od w2) = Inl e"
    then obtain w3 where cl: "cleanup tp td od w2 = (Inl e, w3)"
      by (cases "cleanup tp td od w2") auto
    from pdf_outcome [OF run, of fz] cl
    show "respond (fst (parse_pdf env file pm fz w)) = Error 500 (exn_str env e)"
      by (simp add: respond_def)
  }
next
  assume run: "image_run env file' pm fz w' = Some ((td', tp', od'), Inr (r0 # rest), w2')"
  {
    assume "fst (cleanup tp' td' od' w2') = Inr ()"
    then obtain w3 where cl: "cleanup tp' td' od' w2' = (Inr (), w3)"
      by (cases "cleanup tp' td' od' w2'") auto
    from image_outcome [OF run] cl
    show "respond (fst (parse_image env file' pm fz w')) =
        Ok \<lparr>success = True, total_pages = Suc (length rest),
            results = [\<lparr>entry_page_no = Some 0,
                        full_layout_info = load_layout env (disk w2') r0\<rparr>]\<rparr>"
      by (simp add: respond_def)
  }
  {
    assume "fst (cleanup tp' td' od' w2') = Inl e'"
    then obtain w3 where cl: "cleanup tp' td' od' w2' = (Inl e', w3)"
      by (cases "cleanup tp' td' od' w2'") auto
    from image_outcome [OF run] cl
    show "respond (fst (parse_image env file' pm fz w')) = Error 500 (exn_str env e')"
      by (simp add: respond_def)
  }
qed

theorem cleanup_exception_replaces_result_witness:
  "respond (fst (parse_pdf demo_env demo_pdf demo_mode False world0)) =
     Ok \<lparr>success = True, total_pages = 2,
         results = [\<lparr>entry_page_no = Some 0, full_layout_info = JArr [JNum 0]\<rparr>,
                    \<lparr>entry_page_no = Some 1, full_layout_info = JArr []\<rparr>]\<rparr> \<and>
   respond (fst (parse_pdf subdir_env demo_pdf demo_mode False world0)) =
     Error 500 (''[Errno 21] Is a directory: '' @ quoted ''/tmp/c/images'') \<and>
   respond (fst (parse_image demo_env demo_image demo_mode False world0)) =
     Ok \<lparr>success = True, total_pages = 1,
         results = [\<lparr>entry_page_no = Some 0, full_layout_info = JArr [JNum 0]\<rparr>]\<rparr> \<and>
   respond (fst (parse_image subdir_env demo_image demo_mode False world0)) =
     Error 500 (''[Errno 21] Is a directory: '' @ quoted ''/tmp/c/images'')"
proof -
  note ok = cleanup_exception_replaces_result
    [of demo_env demo_pdf demo_mode world0
        "[''tmp'', ''a'']" "[''tmp'', ''a'', ''upload_b.pdf'']" "[''tmp'', ''c'']"
        "[\<lparr>layout_info_path = Some [''tmp'', ''c'', ''api_pdf_page_0.json''], page_no = Some 0\<rparr>,
          \<lparr>layout_info_path = Some [''tmp'', ''c'', ''api_pdf_page_1.json''], page_no = Some 1\<rparr>]"
        "world_after_pdf demo_env" False _
        demo_image world0
        "[''tmp'', ''a'']" "[''tmp'', ''a'', ''upload_b.png'']" "[''tmp'', ''c'']"
        "\<lparr>layout_info_path = Some [''tmp'', ''c'', ''api_image.json''], page_no = None\<rparr>"
        "[]" "world_after_image demo_env"]
  note bad = cleanup_exception_replaces_result
    [of subdir_env demo_pdf demo_mode world0
        "[''tmp'', ''a'']" "[''tmp'', ''a'', ''upload_b.pdf'']" "[''tmp'', ''c'']"
        "[\<lparr>layout_info_path = Some [''tmp'', ''c'', ''api_pdf_page_0.json''], page_no = Some 0\<rparr>]"
        "world_after_pdf subdir_env" False
        "os_error ''21'' ''Is a directory'' [''tmp'', ''c'', ''images'']"
        demo_image world0
        "[''tmp'', ''a'']" "[''tmp'', ''a'', ''upload_b.png'']" "[''tmp'', ''c'']"
        "\<lparr>layout_info_path = Some [''tmp'', ''c'', ''api_image.json''], page_no = None\<rparr>"
        "[]" "world_after_image subdir_env"
        "os_error ''21'' ''Is a directory'' [''tmp'', ''c'', ''images'']"]
  from ok [THEN conjunct1] run_pdf_demo cleanup_pdf_ok(1)
  have a: "respond (fst (parse_pdf demo_env demo_pdf demo_mode False world0)) =
     Ok \<lparr>success = True, total_pages = 2,
         results = [\<lparr>entry_page_no = Some 0, full_layout_info = JArr [JNum 0]\<rparr>,
                    \<lparr>entry_page_no = Some 1, full_layout_info = JArr []\<rparr>]\<rparr>"
    by (simp add: staged_pdf_def demo_pdf_entries)
  from ok [THEN conjunct2] run_image_demo cleanup_image_ok(1)
  have b: "respond (fst (parse_image demo_env demo_image demo_mode False world0)) =
     Ok \<lparr>success = True, total_pages = 1,
         results = [\<lparr>entry_page_no = Some 0, full_layout_info = JArr [JNum 0]\<rparr>]\<rparr>"
    by (simp add: staged_image_def demo_image_layout)
  from bad run_pdf_subdir run_image_subdir cleanup_subdir_fails
  have c: "respond (fst (parse_pdf subdir_env demo_pdf demo_mode False world0)) =
          Error 500 (''[Errno 21] Is a directory: '' @ quoted ''/tmp/c/images'') \<and>
        respond (fst (parse_image subdir_env demo_image demo_mode False world0)) =
          Error 500 (''[Errno 21] Is a directory: '' @ quoted ''/tmp/c/images'')"
    by (simp add: staged_pdf_def staged_image_def subdir_error_str)
  from a b c show ?thesis by simp
qed

text \<open>
  The engine returns one descriptor for the PDF and leaves a sub-directory \<open>images\<close> in the
  output directory: the parse has succeeded, the removal of \<open>images\<close> raises, and the response
  is a 500.
\<close>

theorem cleanup_failure_turns_success_into_500:
  "map_option (fst \<circ> snd) (pdf_run subdir_env demo_pdf demo_mode world0) =
     Some (Inr [\<lparr>layout_info_path = Some [''tmp'', ''c'', ''api_pdf_page_0.json''],
                 page_no = Some 0\<rparr>]) \<and>
   respond (fst (parse_pdf subdir_env demo_pdf demo_mode False world0)) =
     Error 500 (''[Errno 21] Is a directory: '' @ quoted ''/tmp/c/images'')"
  by code_simp

subsection \<open>C4: engine exceptions\<close>

text \<open>
  Claim C4 says that an exception of the engine is answered with status 500 and detail
  \<open>"Parser error: "\<close> followed by the exception's message, on both endpoints. The status is
  500 on both, the detail is not the claimed one on either: \<open>/parse/pdf\<close> has no inner handler
  and passes the bare message, and on \<open>/parse/image\<close> the \<open>HTTPException\<close> carrying
  \<open>"Parser error: " + msg\<close> is caught by the outer handler, so the detail is the string form of
  that exception. (The cleanup is assumed to raise nothing.)
\<close>

theorem engine_exception_detail:
  "(pdf_run env file pm w = Some ((td, tp, od), Inl (EngineError m), w2) \<and>
    fst (cleanup tp td od w2) = Inr () \<longrightarrow>
      respond (fst (parse_pdf env file pm fz w)) = Error 500 m) \<and>
   (image_run env file' pm fz w' = Some ((td', tp', od'), Inl (EngineError m'), w2') \<and>
    fst (cleanup tp' td' od' w2') = Inr () \<longrightarrow>
      respond (fst (parse_image env file' pm fz w')) =
        Error 500 (http_str env 500 (''Parser error: '' @ m')))"
proof (intro conjI impI)
  assume h: "pdf_run env file pm w = Some ((td, tp, od), Inl (EngineError m), w2) \<and>
    fst (cleanup tp td od w2) = Inr ()"
  then obtain w3 where cl: "cleanup tp td od w2 = (Inr (), w3)"
    by (cases "cleanup tp td od w2") auto
  from h have run: "pdf_run env file pm w = Some ((td, tp, od), Inl (EngineError m), w2)"
    by simp
  from pdf_outcome [OF run, of fz] cl
  show "respond (fst (parse_pdf env file pm fz w)) = Error 500 m"
    by (simp add: respond_def exn_str_def)
next
  assume h: "image_run env file' pm fz w' =
      Some ((td', tp', od'), Inl (EngineError m'), w2') \<and>
    fst (cleanup tp' td' od' w2') = Inr ()"
  then obtain w3 where cl: "cleanup tp' td' od' w2' = (Inr (), w3)"
    by (cases "cleanup tp' td' od' w2'") auto
  from h have run: "image_run env file' pm fz w' =
      Some ((td', tp', od'), Inl (EngineError m'), w2')"
    by simp
  from image_outcome [OF run] cl
  show "respond (fst (parse_image env file' pm fz w')) =
      Error 500 (http_str env 500 (''Parser error: '' @ m'))"
    by (simp add: respond_def exn_str_def)
qed

theorem engine_exception_detail_witness:
  "respond (fst (parse_pdf failing_env demo_pdf demo_mode False world0)) = Error 500 ''boom'' \<and>
   respond (fst (parse_image failing_env demo_image demo_mode False world0)) =
     Error 500 ''500: Parser error: boom''"
  using engine_exception_detail
    [of failing_env demo_pdf demo_mode world0
        "[''tmp'', ''a'']" "[''tmp'', ''a'', ''upload_b.pdf'']" "[''tmp'', ''c'']"
        "''boom''" "world_after_pdf failing_env" False
        demo_image world0
        "[''tmp'', ''a'']" "[''tmp'', ''a'', ''upload_b.png'']" "[''tmp'', ''c'']"
        "''boom''" "world_after_image failing_env"]
    run_pdf_failing run_image_failing cleanup_pdf_ok(2) cleanup_image_ok(2)
  by (simp add: staged_pdf_def staged_image_def demo_http_str)

subsection \<open>C5: unusable layout files\<close>




subsection \<open>C6: the response for an image\<close>

text \<open>
  Claim C6 says that a valid image on which the engine returns is answered with status 200,
  \<open>total_pages == 1\<close> and \<open>results[0].page_no == 0\<close>. The code reports \<open>len(results)\<close> of the
  engine's list as \<open>total_pages\<close>, and needs that list to be non-empty and the cleanup to raise
  nothing. Amended: when the engine returns a non-empty list \<open>rs\<close> and the cleanup raises
  nothing, the response is a success with \<open>total_pages = length rs\<close> and a single entry whose
  page number is 0.
\<close>

theorem image_success_shape:
  assumes "image_run env file pm fz w = Some ((td, tp, od), Inr rs, w2)"
    and "rs \<noteq> []"
    and "fst (cleanup tp td od w2) = Inr ()"
  shows "\<exists>p. respond (fst (parse_image env file pm fz w)) = Ok p \<and>
             success p \<and> total_pages p = length rs \<and>
             map entry_page_no (results p) = [Some 0]"
proof -
  obtain r0 rest where rs: "rs = r0 # rest"
    using assms(2) by (cases rs) auto
  obtain w3 where cl: "cleanup tp td od w2 = (Inr (), w3)"
    using assms(3) by (cases "cleanup tp td od w2") auto
  from image_outcome [OF assms(1)] cl rs show ?thesis
    by (simp add: respond_def)
qed

theorem image_success_shape_witness:
  "\<exists>p. respond (fst (parse_image demo_env demo_image demo_mode False world0)) = Ok p \<and>
       success p \<and> total_pages p = 1 \<and> map entry_page_no (results p) = [Some 0]"
  using image_success_shape
    [OF run_image_demo [unfolded staged_image_def] _ cleanup_image_ok(1)]
  by simp

text \<open>
  A valid image for which the engine returns two descriptors: the response is a success with
  \<open>total_pages = 2\<close> and one entry.
\<close>

theorem image_total_pages_counts_descriptors:
  "validate_image twin_env demo_image = Inr (upload_of ''Scan.PNG'' ''PNGDATA'', ''.png'') \<and>
   respond (fst (parse_image twin_env demo_image demo_mode False world0)) =
     Ok \<lparr>success = True, total_pages = 2,
         results = [\<lparr>entry_page_no = Some 0, full_layout_info = JObj []\<rparr>]\<rparr>"
  by code_simp

subsection \<open>C7: the response for a PDF\<close>



subsection \<open>C8: extensions outside the allow-list\<close>

text \<open>
  Claim C8 says that an upload whose extension is outside the endpoint's allow-list gets a
  client error and that the engine is never invoked. The second half holds: the handler
  returns the world it was given, so nothing is staged and the call log is unchanged. The
  first half does not: the status is 500, the 400 having been caught by the outer handler.
  On \<open>/parse/file\<close> the content is read before the extension is looked at, so an empty upload
  is reported as empty.
\<close>

theorem unsupported_extension_skips_engine:
  assumes "filename f = Some name" and "name \<noteq> []"
  shows
    "(suffix_lower env name \<notin> set image_exts \<longrightarrow>
        parse_image env (Some f) pm fz w =
          (Inl (HTTPException 500
                 (http_str env 400 ''Invalid image format. Supported: .jpg, .jpeg, .png'')), w)) \<and>
     (suffix_lower env name \<noteq> ''.pdf'' \<longrightarrow>
        parse_pdf env (Some f) pm fz w =
          (Inl (HTTPException 500
                 (http_str env 400 ''Invalid PDF format. Only .pdf files accepted'')), w)) \<and>
     (suffix_lower env name \<notin> set (''.pdf'' # image_exts) \<longrightarrow>
        parse_file env (Some f) pm fz w =
          (Inl (HTTPException 500
                 (http_str env 400
                    (if drop (pos f) (content f) = [] then ''Uploaded file is empty''
                     else ''Unsupported file format''))), w))"
proof (intro conjI impI)
  assume "suffix_lower env name \<notin> set image_exts"
  then show "parse_image env (Some f) pm fz w =
      (Inl (HTTPException 500
             (http_str env 400 ''Invalid image format. Supported: .jpg, .jpeg, .png'')), w)"
    using assms by (simp add: parse_image_invalid validate_image_bad_ext exn_str_http)
next
  assume "suffix_lower env name \<noteq> ''.pdf''"
  then show "parse_pdf env (Some f) pm fz w =
      (Inl (HTTPException 500
             (http_str env 400 ''Invalid PDF format. Only .pdf files accepted'')), w)"
    using assms by (simp add: parse_pdf_invalid validate_pdf_bad_ext exn_str_http)
next
  assume ext: "suffix_lower env name \<notin> set (''.pdf'' # image_exts)"
  show "parse_file env (Some f) pm fz w =
      (Inl (HTTPException 500
             (http_str env 400
                (if drop (pos f) (content f) = [] then ''Uploaded file is empty''
                 else ''Unsupported file format''))), w)"
  proof (cases "drop (pos f) (content f) = []")
    case True
    then show ?thesis
      using assms by (simp add: parse_file_invalid validate_file_nonempty exn_str_http)
  next
    case False
    with assms have "validate_file env (Some f) =
        Inr (seek0 (snd (read_upload f)), suffix_lower env name)"
      by (simp add: validate_file_nonempty)
    then show ?thesis
      using ext False by (simp add: parse_file_unsupported)
  qed
qed

theorem unsupported_extension_skips_engine_witness:
  "parse_image demo_env (Some (upload_of ''notes.txt'' ''hello'')) demo_mode False world0 =
     (Inl (HTTPException 500 ''400: Invalid image format. Supported: .jpg, .jpeg, .png''), world0) \<and>
   parse_pdf demo_env (Some (upload_of ''notes.txt'' ''hello'')) demo_mode False world0 =
     (Inl (HTTPException 500 ''400: Invalid PDF format. Only .pdf files accepted''), world0) \<and>
   parse_file demo_env (Some (upload_of ''notes.txt'' ''hello'')) demo_mode False world0 =
     (Inl (HTTPException 500 ''400: Unsupported file format''), world0)"
  using unsupported_extension_skips_engine
    [of "upload_of ''notes.txt'' ''hello''" "''notes.txt''" demo_env demo_mode False world0]
  by (simp add: upload_of_def demo_suffix demo_http_str image_exts_def)

subsection \<open>C9: delegation of a PDF by the generic endpoint\<close>

text \<open>
  Claim C9 says that \<open>/parse/file\<close> on a \<open>.pdf\<close> upload behaves exactly as \<open>/parse/pdf\<close>, on
  success and on error paths. It does on success, and when the upload is empty. Every other
  error of \<open>/parse/pdf\<close> reaches the \<open>except Exception\<close> clause of \<open>/parse/file\<close> and is
  wrapped once more, so the detail differs.
\<close>

theorem file_dispatch_rewraps_pdf_errors:
  assumes "filename f = Some name" and "name \<noteq> []" and "suffix_lower env name = ''.pdf''"
  shows "parse_file env (Some f) pm fz w =
     (case parse_pdf env (Some f) pm fz w of
        (Inr p, w') \<Rightarrow> (Inr p, w')
      | (Inl e, w') \<Rightarrow>
          if drop (pos f) (content f) = [] then (Inl e, w')
          else (Inl (HTTPException 500 (exn_str env e)), w'))"
proof (cases "drop (pos f) (content f) = []")
  case True
  with assms have "validate_file env (Some f) = Inl (HTTPException 400 ''Uploaded file is empty'')"
    and "validate_pdf env (Some f) = Inl (HTTPException 400 ''Uploaded file is empty'')"
    by (simp_all add: validate_file_nonempty validate_pdf_ok)
  then show ?thesis
    using True by (simp add: parse_file_invalid parse_pdf_invalid)
next
  case False
  let ?g = "f\<lparr>pos := 0\<rparr>"
  from assms False have vf: "validate_file env (Some f) = Inr (?g, ''.pdf'')"
    by (simp add: validate_file_nonempty read_upload_def seek0_def)
  from False have ne: "content f \<noteq> []" by auto
  from assms False ne have "validate_pdf env (Some ?g) = validate_pdf env (Some f)"
    by (simp add: validate_pdf_ok [of ?g name] validate_pdf_ok [of f name])
  then have same: "parse_pdf env (Some ?g) pm fz w = parse_pdf env (Some f) pm fz w"
    by (rule parse_pdf_by_validation)
  have "parse_file env (Some f) pm fz w = catch_all env (parse_pdf env (Some ?g) pm fz) w"
    by (simp add: parse_file_def parse_file_body_def vf catch_all_apply bnd_lift_Inr)
  then show ?thesis
    using False by (simp add: same catch_all_apply split: prod.splits sum.splits)
qed

theorem file_dispatch_rewraps_pdf_errors_witness:
  "respond (fst (parse_pdf failing_env demo_pdf demo_mode False world0)) = Error 500 ''boom'' \<and>
   respond (fst (parse_file failing_env demo_pdf demo_mode False world0)) = Error 500 ''500: boom''"
proof -
  let ?f = "upload_of ''scan.pdf'' ''%PDF-1.4''"
  have f: "filename ?f = Some ''scan.pdf''" and ne: "drop (pos ?f) (content ?f) \<noteq> []"
    by (simp_all add: upload_of_def)
  note r = failing_pdf_response [unfolded demo_pdf_def]
  from file_dispatch_rewraps_pdf_errors [OF f _ demo_suffix(2), of demo_mode False world0] ne
  have "fst (parse_file failing_env (Some ?f) demo_mode False world0) =
      Inl (HTTPException 500 ''500: boom'')"
    by (simp add: r exn_str_http demo_http_str)
  with r show ?thesis
    by (simp add: demo_pdf_def respond_def)
qed

subsection \<open>C10: an empty engine result for an image\<close>

text \<open>
  Claim C10: when the engine returns the empty list for a valid image, the response has
  status 500 (with the detail of the \<open>IndexError\<close> wrapped as a parser error when the cleanup
  raises nothing); and whenever \<open>/parse/image\<close> succeeds, the engine has returned at least one
  descriptor.
\<close>

theorem empty_image_result_is_500:
  "(image_run env file pm fz w = Some ((td, tp, od), Inr [], w2) \<longrightarrow>
      (\<exists>d. respond (fst (parse_image env file pm fz w)) = Error 500 d) \<and>
      (fst (cleanup tp td od w2) = Inr () \<longrightarrow>
         respond (fst (parse_image env file pm fz w)) =
           Error 500 (http_str env 500 ''Parser error: list index out of range''))) \<and>
   (fst (parse_image env file' pm' fz' w') = Inr p \<longrightarrow>
      (\<exists>td tp od r0 rest w2.
         image_run env file' pm' fz' w' = Some ((td, tp, od), Inr (r0 # rest), w2)))"
proof (intro conjI impI)
  assume run: "image_run env file pm fz w = Some ((td, tp, od), Inr [], w2)"
  obtain rc w3 where cl: "cleanup tp td od w2 = (rc, w3)"
    by (cases "cleanup tp td od w2")
  from image_outcome [OF run] cl
  show "\<exists>d. respond (fst (parse_image env file pm fz w)) = Error 500 d"
    by (cases rc) (simp_all add: respond_def)
  assume "fst (cleanup tp td od w2) = Inr ()"
  with image_outcome [OF run] cl
  show "respond (fst (parse_image env file pm fz w)) =
      Error 500 (http_str env 500 ''Parser error: list index out of range'')"
    by (simp add: respond_def exn_str_def)
next
  assume ok: "fst (parse_image env file' pm' fz' w') = Inr p"
  show "\<exists>td tp od r0 rest w2.
      image_run env file' pm' fz' w' = Some ((td, tp, od), Inr (r0 # rest), w2)"
  proof (cases "image_run env file' pm' fz' w'")
    case None
    from image_run_None [OF this] ok show ?thesis by simp
  next
    case (Some x)
    then obtain td tp od r w2 where
      run: "image_run env file' pm' fz' w' = Some ((td, tp, od), r, w2)"
      by (cases x) auto
    obtain rc w3 where cl: "cleanup tp td od w2 = (rc, w3)"
      by (cases "cleanup tp td od w2")
    from image_outcome [OF run] ok cl obtain r0 rest where "r = Inr (r0 # rest)"
      by (cases rc; cases r; cases "projr r") auto
    with run show ?thesis by simp
  qed
qed

theorem empty_image_result_is_500_witness:
  "respond (fst (parse_image empty_env demo_image demo_mode False world0)) =
     Error 500 ''500: Parser error: list index out of range'' \<and>
   (\<exists>td tp od r0 rest w2.
      image_run demo_env demo_image demo_mode False world0 =
        Some ((td, tp, od), Inr (r0 # rest), w2))"
proof -
  note a = empty_image_result_is_500
    [of empty_env demo_image demo_mode False world0
        "[''tmp'', ''a'']" "[''tmp'', ''a'', ''upload_b.png'']" "[''tmp'', ''c'']"
        "world_after_image empty_env", THEN conjunct1]
  note b = empty_image_result_is_500
    [where env = demo_env and file' = demo_image and pm' = demo_mode and fz' = False
       and w' = world0, THEN conjunct2]
  from a run_image_empty cleanup_image_ok(4)
  have "respond (fst (parse_image empty_env demo_image demo_mode False world0)) =
     Error 500 ''500: Parser error: list index out of range''"
    by (simp add: staged_image_def demo_http_str)
  moreover from b demo_image_response
  have "\<exists>td tp od r0 rest w2.
      image_run demo_env demo_image demo_mode False world0 =
        Some ((td, tp, od), Inr (r0 # rest), w2)"
    by simp
  ultimately show ?thesis by simp
qed

end
